theory Spec2Isabelle
  imports Complex_Main "HOL-Library.AList"
begin

section \<open>Floating-point arithmetic\<close>

text \<open>
  Python's \<open>float\<close> values are modelled as the real numbers they denote. Each arithmetic
  operation that the code performs on floats is followed by a rounding \<open>rnd\<close>, a parameter
  of every definition below: \<open>a + b\<close> in the code is \<open>rnd (a + b)\<close> here, and a decimal
  literal such as \<open>0.9\<close> is \<open>rnd (9 / 10)\<close>. With \<open>rnd\<close> the round-to-nearest of
  the binary64 format the definitions compute what the code computes, as long as no
  operation overflows and integers stay below \<open>2^53\<close>; with \<open>rnd = exact\<close> they compute in
  exact arithmetic. Comparisons, \<open>min\<close>, \<open>max\<close>, negation and the arithmetic of Python's
  \<open>int\<close> are exact. An argument of a call is a float as well: a decimal such as \<open>1.1\<close>
  written in a call stands for \<open>rnd (11 / 10)\<close>, which for binary64 is the number
  \<open>2476979795053773 / 2^51\<close>, slightly above \<open>11 / 10\<close>.
\<close>

type_synonym rounding = "real \<Rightarrow> real"

definition exact :: rounding where
  "exact x = x"

text \<open>
  Properties of round-to-nearest that some theorems below assume: zero is a float,
  rounding is monotone, and a float is left as it is.
\<close>

definition monotone_rounding :: "rounding \<Rightarrow> bool" where
  "monotone_rounding rnd \<longleftrightarrow>
     rnd 0 = 0 \<and> (\<forall>x y. x \<le> y \<longrightarrow> rnd x \<le> rnd y) \<and> (\<forall>x. rnd (rnd x) = rnd x)"

text \<open>
  The error of one rounding: at most the relative error \<open>u\<close> (the unit roundoff, \<open>2^-53\<close>
  for binary64) plus the absolute error \<open>eta\<close> of the subnormal range (\<open>2^-1075\<close> for
  binary64). Exact arithmetic has \<open>u = 0\<close> and \<open>eta = 0\<close>.
\<close>

definition rounding_error :: "real \<Rightarrow> real \<Rightarrow> rounding \<Rightarrow> bool" where
  "rounding_error u eta rnd \<longleftrightarrow>
     0 \<le> u \<and> 0 \<le> eta \<and> (\<forall>x. \<bar>rnd x - x\<bar> \<le> u * \<bar>x\<bar> + eta)"

text \<open>Python's \<open>int(x)\<close> on a float truncates toward zero.\<close>

definition py_int :: "real \<Rightarrow> int" where
  "py_int x = (if x < 0 then \<lceil>x\<rceil> else \<lfloor>x\<rfloor>)"

section \<open>Data model of \<open>pybacktest/trade.py\<close>\<close>

text \<open>
  Dates are integers (a totally ordered time stamp), dictionaries are association lists in
  insertion order, exceptions are values of the type \<open>error\<close>.
\<close>

datatype TradeType = BUY | SELL | INIT | DIVIDEND

datatype error =
  InvalidPrice | MissingSizeDirective | InvalidFraction | ZeroDivisionError | IndexError

record TradeRecord =
  tr_date :: int
  tr_symbol :: string
  tr_trade_type :: TradeType
  tr_price :: real
  tr_shares :: real
  tr_commission :: real
  tr_slippage :: real
  tr_total_cost :: real
  tr_cash_change :: real
  tr_cash_balance :: real

record Position =
  pos_symbol :: string
  pos_shares :: real
  pos_avg_price :: real
  pos_cost_basis :: real

record TradeCost =
  commission_rate :: real
  min_commission :: real
  slippage_rate :: real

record Snapshot =
  snap_date :: int
  snap_cash :: real
  snap_positions_value :: "(string \<times> real) list"
  snap_total_value :: real

record TradeManager =
  initial_cash :: real
  cash :: real
  trade_cost :: TradeCost
  positions :: "(string \<times> Position) list"
  trade_history :: "TradeRecord list"
  daily_portfolio_value :: "Snapshot list"

subsection \<open>Position\<close>

definition Position_init :: "rounding \<Rightarrow> string \<Rightarrow> Position" where
  "Position_init rnd symbol =
     \<lparr>pos_symbol = symbol, pos_shares = 0, pos_avg_price = 0, pos_cost_basis = rnd (0 * 0)\<rparr>"

definition Position_add :: "rounding \<Rightarrow> Position \<Rightarrow> real \<Rightarrow> real \<Rightarrow> Position" where
  "Position_add rnd p n price =
     (if n \<le> 0 then p
      else
        let total_cost = rnd (pos_cost_basis p + rnd (n * price));
            total_shares = rnd (pos_shares p + n)
        in p\<lparr>pos_shares := total_shares,
              pos_cost_basis := total_cost,
              pos_avg_price :=
                (if total_shares > 0 then rnd (total_cost / total_shares) else 0)\<rparr>)"

text \<open>\<open>Position_remove\<close> returns the number of shares taken out together with the new position.\<close>

definition Position_remove :: "rounding \<Rightarrow> Position \<Rightarrow> real \<Rightarrow> real \<times> Position" where
  "Position_remove rnd p n =
     (if n \<le> 0 then (0, p)
      else
        let actual_shares = min n (pos_shares p);
            left = rnd (pos_shares p - actual_shares)
        in if left = 0
           then (actual_shares, p\<lparr>pos_shares := left, pos_avg_price := 0, pos_cost_basis := 0\<rparr>)
           else (actual_shares,
                 p\<lparr>pos_shares := left, pos_cost_basis := rnd (left * pos_avg_price p)\<rparr>))"

definition market_value :: "rounding \<Rightarrow> Position \<Rightarrow> real \<Rightarrow> real" where
  "market_value rnd p current_price = rnd (pos_shares p * current_price)"

subsection \<open>TradeCost\<close>

definition TradeCost_default :: "rounding \<Rightarrow> TradeCost" where
  "TradeCost_default rnd =
     \<lparr>commission_rate = rnd (3 / 10000), min_commission = 5, slippage_rate = rnd (1 / 10000)\<rparr>"

definition calculate :: "rounding \<Rightarrow> TradeCost \<Rightarrow> real \<Rightarrow> real \<Rightarrow> real \<times> real \<times> real" where
  "calculate rnd tc price n =
     (let commission = max (rnd (rnd (price * n) * commission_rate tc)) (min_commission tc);
          slippage = rnd (rnd (price * n) * slippage_rate tc);
          total_cost = rnd (commission + slippage)
      in (commission, slippage, total_cost))"

subsection \<open>TradeManager\<close>

definition TradeManager_init :: "rounding \<Rightarrow> real \<Rightarrow> TradeCost option \<Rightarrow> TradeManager" where
  "TradeManager_init rnd c tc =
     \<lparr>initial_cash = c, cash = c,
      trade_cost = (case tc of Some t \<Rightarrow> t | None \<Rightarrow> TradeCost_default rnd),
      positions = [], trade_history = [], daily_portfolio_value = []\<rparr>"

text \<open>
  The sizing step of \<open>buy\<close> when only an amount is given. Both quotients are float
  divisions; \<open>int(...) * 100\<close> is integer arithmetic.
\<close>

definition amount_shares :: "rounding \<Rightarrow> real \<Rightarrow> real \<Rightarrow> bool \<Rightarrow> real" where
  "amount_shares rnd price amount allow_partial =
     (let max_shares = rnd (amount / price);
          n = of_int (py_int (rnd (max_shares / 100))) * 100
      in if n = 0 \<and> allow_partial \<and> max_shares \<ge> 1 then 100 else n)"

definition total_spend :: "rounding \<Rightarrow> TradeCost \<Rightarrow> real \<Rightarrow> real \<Rightarrow> real" where
  "total_spend rnd tc price n = rnd (rnd (price * n) + snd (snd (calculate rnd tc price n)))"

text \<open>The committing tail of \<open>buy\<close>: cash, position and history are updated together.\<close>

definition buy_commit ::
  "rounding \<Rightarrow> TradeManager \<Rightarrow> int \<Rightarrow> string \<Rightarrow> real \<Rightarrow> real
     \<Rightarrow> TradeRecord option \<times> TradeManager" where
  "buy_commit rnd tm date symbol price n =
     (let (commission, slippage, total_cost) = calculate rnd (trade_cost tm) price n;
          spend = rnd (rnd (price * n) + total_cost);
          cash' = rnd (cash tm - spend);
          old = (case map_of (positions tm) symbol of
                   None \<Rightarrow> Position_init rnd symbol | Some p \<Rightarrow> p);
          positions' = AList.update symbol (Position_add rnd old n price) (positions tm);
          trade_record = \<lparr>tr_date = date, tr_symbol = symbol, tr_trade_type = BUY,
                          tr_price = price, tr_shares = n, tr_commission = commission,
                          tr_slippage = slippage, tr_total_cost = total_cost,
                          tr_cash_change = - spend, tr_cash_balance = cash'\<rparr>
      in (Some trade_record,
          tm\<lparr>cash := cash', positions := positions',
             trade_history := trade_history tm @ [trade_record]\<rparr>))"

text \<open>The cash check of \<open>buy\<close>, with the reduced fill when partial fills are allowed.\<close>

definition buy_fill ::
  "rounding \<Rightarrow> TradeManager \<Rightarrow> int \<Rightarrow> string \<Rightarrow> real \<Rightarrow> real \<Rightarrow> bool
     \<Rightarrow> error + (TradeRecord option \<times> TradeManager)" where
  "buy_fill rnd tm date symbol price n allow_partial =
     (if total_spend rnd (trade_cost tm) price n > cash tm then
        if \<not> allow_partial then Inr (None, tm)
        else
          let unit_cost =
                rnd (price * rnd (rnd (1 + commission_rate (trade_cost tm))
                                   + slippage_rate (trade_cost tm)))
          in if unit_cost = 0 then Inl ZeroDivisionError
             else
               let max_shares = of_int (py_int (rnd (rnd (cash tm / unit_cost) / 100))) * 100
               in if max_shares = 0 then Inr (None, tm)
                  else Inr (buy_commit rnd tm date symbol price max_shares)
      else Inr (buy_commit rnd tm date symbol price n))"

definition buy ::
  "rounding \<Rightarrow> TradeManager \<Rightarrow> int \<Rightarrow> string \<Rightarrow> real \<Rightarrow> real option \<Rightarrow> real option \<Rightarrow> bool
     \<Rightarrow> error + (TradeRecord option \<times> TradeManager)" where
  "buy rnd tm date symbol price shares amount allow_partial =
     (if price \<le> 0 then Inl InvalidPrice
      else case shares of
        Some n \<Rightarrow> buy_fill rnd tm date symbol price n allow_partial
      | None \<Rightarrow>
          (case amount of
             None \<Rightarrow> Inl MissingSizeDirective
           | Some a \<Rightarrow>
               buy_fill rnd tm date symbol price (amount_shares rnd price a allow_partial)
                 allow_partial))"

text \<open>The sizing step of \<open>sell\<close>, before the final clamp to the held quantity.\<close>

definition sell_shares ::
  "rounding \<Rightarrow> real \<Rightarrow> real \<Rightarrow> real option \<Rightarrow> real option \<Rightarrow> real option \<Rightarrow> error + real" where
  "sell_shares rnd held price shares amount percent =
     (case shares of
        Some n \<Rightarrow> Inr n
      | None \<Rightarrow>
          (case amount of
             Some a \<Rightarrow>
               (let n = min held (of_int (py_int (rnd (rnd (a / price) / 100))) * 100)
                in Inr (if n = 0 \<and> a \<ge> price then min held 100 else n))
           | None \<Rightarrow>
               (case percent of
                  None \<Rightarrow> Inr held
                | Some pc \<Rightarrow>
                    if \<not> (0 \<le> pc \<and> pc \<le> 1) then Inl InvalidFraction
                    else
                      let n = of_int (py_int (rnd (rnd (held * pc) / 100))) * 100
                      in Inr (if n = 0 \<and> pc > 0 then min held 100 else n))))"

definition sell_commit ::
  "rounding \<Rightarrow> TradeManager \<Rightarrow> Position \<Rightarrow> int \<Rightarrow> string \<Rightarrow> real \<Rightarrow> real
     \<Rightarrow> TradeRecord option \<times> TradeManager" where
  "sell_commit rnd tm position date symbol price n0 =
     (let n = min n0 (pos_shares position);
          (commission, slippage, total_cost) = calculate rnd (trade_cost tm) price n;
          total_income = rnd (rnd (price * n) - total_cost);
          cash' = rnd (cash tm + total_income);
          positions' =
            AList.update symbol (snd (Position_remove rnd position n)) (positions tm);
          trade_record = \<lparr>tr_date = date, tr_symbol = symbol, tr_trade_type = SELL,
                          tr_price = price, tr_shares = n, tr_commission = commission,
                          tr_slippage = slippage, tr_total_cost = total_cost,
                          tr_cash_change = total_income, tr_cash_balance = cash'\<rparr>
      in (Some trade_record,
          tm\<lparr>cash := cash', positions := positions',
             trade_history := trade_history tm @ [trade_record]\<rparr>))"

definition sell ::
  "rounding \<Rightarrow> TradeManager \<Rightarrow> int \<Rightarrow> string \<Rightarrow> real \<Rightarrow> real option \<Rightarrow> real option
     \<Rightarrow> real option \<Rightarrow> error + (TradeRecord option \<times> TradeManager)" where
  "sell rnd tm date symbol price shares amount percent =
     (if price \<le> 0 then Inl InvalidPrice
      else case map_of (positions tm) symbol of
        None \<Rightarrow> Inr (None, tm)
      | Some position \<Rightarrow>
          if pos_shares position = 0 then Inr (None, tm)
          else
            (case sell_shares rnd (pos_shares position) price shares amount percent of
               Inl e \<Rightarrow> Inl e
             | Inr n0 \<Rightarrow> Inr (sell_commit rnd tm position date symbol price n0)))"

definition get_position :: "rounding \<Rightarrow> TradeManager \<Rightarrow> string \<Rightarrow> Position" where
  "get_position rnd tm symbol =
     (case map_of (positions tm) symbol of Some p \<Rightarrow> p | None \<Rightarrow> Position_init rnd symbol)"

text \<open>\<open>reset\<close> reads the clock (\<open>datetime.now()\<close>); the reading is the parameter \<open>now\<close>.\<close>

definition init_record :: "int \<Rightarrow> real \<Rightarrow> TradeRecord" where
  "init_record now c =
     \<lparr>tr_date = now, tr_symbol = [], tr_trade_type = INIT, tr_price = 0, tr_shares = 0,
      tr_commission = 0, tr_slippage = 0, tr_total_cost = 0,
      tr_cash_change = c, tr_cash_balance = c\<rparr>"

definition reset :: "int \<Rightarrow> TradeManager \<Rightarrow> TradeManager" where
  "reset now tm =
     tm\<lparr>cash := initial_cash tm, positions := [],
        trade_history := [] @ [init_record now (initial_cash tm)],
        daily_portfolio_value := []\<rparr>"

text \<open>
  \<open>update_portfolio_value\<close> walks the positions in dictionary order and appends one
  valuation snapshot.
\<close>

definition value_step ::
  "rounding \<Rightarrow> (string \<times> real) list \<Rightarrow> string \<times> Position
     \<Rightarrow> (string \<times> real) list \<times> real \<Rightarrow> (string \<times> real) list \<times> real" where
  "value_step rnd price_dict sp acc =
     (if pos_shares (snd sp) > 0 then
        (case map_of price_dict (fst sp) of
           Some price \<Rightarrow>
             (AList.update (fst sp) (market_value rnd (snd sp) price) (fst acc),
              rnd (snd acc + market_value rnd (snd sp) price))
         | None \<Rightarrow> acc)
      else acc)"

definition update_portfolio_value ::
  "rounding \<Rightarrow> TradeManager \<Rightarrow> int \<Rightarrow> (string \<times> real) list \<Rightarrow> TradeManager" where
  "update_portfolio_value rnd tm date price_dict =
     (let (positions_value, portfolio_value) =
            fold (value_step rnd price_dict) (positions tm) ([], cash tm)
      in tm\<lparr>daily_portfolio_value := daily_portfolio_value tm @
            [\<lparr>snap_date = date, snap_cash = cash tm,
              snap_positions_value = positions_value,
              snap_total_value = portfolio_value\<rparr>]\<rparr>)"

section \<open>The bar loop of \<open>SignalStrategy.run\<close> (\<open>pybacktest/strategy.py\<close>)\<close>

record Bar =
  bar_date :: int
  bar_close :: real
  bar_signal :: real

record Row =
  row_trade_type :: "string option"
  row_shares :: real
  row_price :: real
  row_cash :: real
  row_position :: real
  row_portfolio_value :: real

text \<open>The call on the trade manager that the loop body makes for one bar.\<close>

datatype Call = BuyCall "real option" "real option" | SellCall real | NoCall

definition bar_call ::
  "rounding \<Rightarrow> real option \<Rightarrow> real option \<Rightarrow> TradeManager \<Rightarrow> string \<Rightarrow> Bar \<Rightarrow> Call" where
  "bar_call rnd position_size position_pct tm symbol bar =
     (let position = get_position rnd tm symbol
      in if bar_signal bar = 1 then
           (case position_size of
              Some n \<Rightarrow> BuyCall (Some n) None
            | None \<Rightarrow>
                (case position_pct of
                   Some pct \<Rightarrow> BuyCall None (Some (rnd (cash tm * pct)))
                 | None \<Rightarrow> BuyCall None (Some (rnd (cash tm * rnd (9 / 10))))))
         else if bar_signal bar = - 1 then
           (if pos_shares position > 0 then SellCall (pos_shares position) else NoCall)
         else NoCall)"

definition do_call ::
  "rounding \<Rightarrow> TradeManager \<Rightarrow> int \<Rightarrow> string \<Rightarrow> real \<Rightarrow> Call
     \<Rightarrow> error + (TradeRecord option \<times> TradeManager)" where
  "do_call rnd tm date symbol price c =
     (case c of
        BuyCall shares amount \<Rightarrow> buy rnd tm date symbol price shares amount True
      | SellCall n \<Rightarrow> sell rnd tm date symbol price (Some n) None None
      | NoCall \<Rightarrow> Inr (None, tm))"

definition call_label :: "Call \<Rightarrow> string" where
  "call_label c = (case c of BuyCall _ _ \<Rightarrow> ''BUY'' | SellCall _ \<Rightarrow> ''SELL'' | NoCall \<Rightarrow> [])"

text \<open>
  One iteration: the row written to the result frame, the call made, and the trade manager
  after the call and the valuation snapshot. \<open>cash0\<close> is the cash the frame's \<open>cash\<close>
  column was filled with before the loop.
\<close>

definition run_bar ::
  "rounding \<Rightarrow> real option \<Rightarrow> real option \<Rightarrow> string \<Rightarrow> real \<Rightarrow> TradeManager \<Rightarrow> Bar
     \<Rightarrow> error + (Row \<times> Call \<times> TradeManager)" where
  "run_bar rnd position_size position_pct symbol cash0 tm bar =
     (let current_price = bar_close bar;
          current_date = bar_date bar;
          position = get_position rnd tm symbol;
          portfolio_value =
            (if pos_shares position > 0
             then rnd (cash tm + market_value rnd position current_price)
             else cash tm);
          c = bar_call rnd position_size position_pct tm symbol bar
      in case do_call rnd tm current_date symbol current_price c of
           Inl e \<Rightarrow> Inl e
         | Inr (trade_record, tm') \<Rightarrow>
             Inr (\<lparr>row_trade_type =
                     (case trade_record of None \<Rightarrow> None | Some r \<Rightarrow> Some (call_label c)),
                   row_shares = (case trade_record of None \<Rightarrow> 0 | Some r \<Rightarrow> tr_shares r),
                   row_price = current_price,
                   row_cash =
                     (case trade_record of None \<Rightarrow> cash0 | Some r \<Rightarrow> tr_cash_balance r),
                   row_position = pos_shares position,
                   row_portfolio_value = portfolio_value\<rparr>,
                  c,
                  update_portfolio_value rnd tm' current_date [(symbol, current_price)]))"

fun run_loop ::
  "rounding \<Rightarrow> real option \<Rightarrow> real option \<Rightarrow> string \<Rightarrow> real \<Rightarrow> TradeManager \<Rightarrow> Bar list
     \<Rightarrow> error + (Row list \<times> Call list \<times> TradeManager)" where
  "run_loop rnd position_size position_pct symbol cash0 tm [] = Inr ([], [], tm)"
| "run_loop rnd position_size position_pct symbol cash0 tm (bar # bars) =
     (case run_bar rnd position_size position_pct symbol cash0 tm bar of
        Inl e \<Rightarrow> Inl e
      | Inr (row, c, tm') \<Rightarrow>
          (case run_loop rnd position_size position_pct symbol cash0 tm' bars of
             Inl e \<Rightarrow> Inl e
           | Inr (rows, calls, tm'') \<Rightarrow> Inr (row # rows, c # calls, tm'')))"

definition run ::
  "rounding \<Rightarrow> int \<Rightarrow> string \<Rightarrow> TradeManager \<Rightarrow> Bar list \<Rightarrow> real option \<Rightarrow> real option
     \<Rightarrow> real option \<Rightarrow> error + (Row list \<times> Call list \<times> TradeManager)" where
  "run rnd now symbol tm bars initial_cash_arg position_size position_pct =
     (let tm1 = (case initial_cash_arg of Some _ \<Rightarrow> reset now tm | None \<Rightarrow> tm)
      in run_loop rnd position_size position_pct symbol (cash tm1) tm1 bars)"

subsection \<open>One bar in the specification's words\<close>


section \<open>Round-trip pairing of \<open>pybacktest/performance.py\<close>\<close>

text \<open>The two-cursor \<open>while\<close> loop shared by \<open>calculate\<close> and \<open>calculate_portfolio\<close>.\<close>

function pair_loop ::
  "TradeRecord list \<Rightarrow> TradeRecord list \<Rightarrow> nat \<Rightarrow> nat
     \<Rightarrow> (TradeRecord \<times> TradeRecord) list \<Rightarrow> (TradeRecord \<times> TradeRecord) list" where
  "pair_loop buy_trades sell_trades buy_index sell_index paired_trades =
     (if buy_index < length buy_trades \<and> sell_index < length sell_trades then
        let buy_trade = buy_trades ! buy_index;
            sell_trade = sell_trades ! sell_index
        in if tr_date sell_trade > tr_date buy_trade
           then pair_loop buy_trades sell_trades (buy_index + 1) (sell_index + 1)
                  (paired_trades @ [(buy_trade, sell_trade)])
           else pair_loop buy_trades sell_trades buy_index (sell_index + 1) paired_trades
      else paired_trades)"
  by pat_completeness auto
termination
  by (relation "measure (\<lambda>(bs, ss, i, j, acc). length ss - j)") auto

declare pair_loop.simps [simp del]

definition is_buy :: "TradeRecord \<Rightarrow> bool" where
  "is_buy t = (tr_trade_type t = BUY)"

definition is_sell :: "TradeRecord \<Rightarrow> bool" where
  "is_sell t = (tr_trade_type t = SELL)"

text \<open>
  \<open>Performance.calculate\<close>: no pairing is made when the history has at most one record.
  Otherwise the last row of the result frame is read first (\<open>iloc[-1]\<close>, an \<open>IndexError\<close>
  on an empty frame), and then the loop runs over all BUY and all SELL records of the
  history. The return and risk figures computed in between do not enter the pairing.
\<close>

definition calculate_paired_trades ::
  "TradeManager \<Rightarrow> Row list \<Rightarrow> error + (TradeRecord \<times> TradeRecord) list option" where
  "calculate_paired_trades tm result_df =
     (if length (trade_history tm) \<le> 1 then Inr None
      else if result_df = [] then Inl IndexError
      else Inr (Some (pair_loop (filter is_buy (trade_history tm))
                        (filter is_sell (trade_history tm)) 0 0 [])))"

text \<open>
  \<open>Performance.calculate_portfolio\<close>: nothing is paired when there is no valuation snapshot;
  otherwise the trades with a non-empty symbol are grouped by symbol and each group is
  walked in dictionary order, all pairs going to one list.
\<close>

definition group_step ::
  "TradeRecord \<Rightarrow> (string \<times> TradeRecord list) list \<Rightarrow> (string \<times> TradeRecord list) list" where
  "group_step trade d =
     (if tr_symbol trade \<noteq> [] then
        AList.update (tr_symbol trade)
          ((case map_of d (tr_symbol trade) of None \<Rightarrow> [] | Some ts \<Rightarrow> ts) @ [trade]) d
      else d)"

definition trades_by_symbol :: "TradeRecord list \<Rightarrow> (string \<times> TradeRecord list) list" where
  "trades_by_symbol h = fold group_step h []"

definition pair_symbol ::
  "string \<times> TradeRecord list \<Rightarrow> (TradeRecord \<times> TradeRecord) list
     \<Rightarrow> (TradeRecord \<times> TradeRecord) list" where
  "pair_symbol st paired_trades =
     pair_loop (filter is_buy (snd st)) (filter is_sell (snd st)) 0 0 paired_trades"

definition calculate_portfolio_paired_trades ::
  "TradeManager \<Rightarrow> (TradeRecord \<times> TradeRecord) list option" where
  "calculate_portfolio_paired_trades tm =
     (if daily_portfolio_value tm = [] then None
      else Some (fold pair_symbol (trades_by_symbol (trade_history tm)) []))"

subsection \<open>The reconstruction in the specification's words\<close>

text \<open>
  Two cursors over the BUY and the SELL sequence: the heads are paired when the SELL is
  strictly later than the BUY, and both cursors move; otherwise only the SELL cursor moves.
\<close>

fun spec_walk ::
  "TradeRecord list \<Rightarrow> TradeRecord list \<Rightarrow> (TradeRecord \<times> TradeRecord) list" where
  "spec_walk [] ss = []"
| "spec_walk (b # bs) [] = []"
| "spec_walk (b # bs) (s # ss) =
     (if tr_date b < tr_date s then (b, s) # spec_walk bs ss else spec_walk (b # bs) ss)"

text \<open>The symbols of a history, each once, in order of first appearance.\<close>

definition spec_symbols :: "TradeRecord list \<Rightarrow> string list" where
  "spec_symbols h = rev (remdups (rev (filter (\<lambda>s. s \<noteq> []) (map tr_symbol h))))"

definition spec_round_trips :: "TradeRecord list \<Rightarrow> (TradeRecord \<times> TradeRecord) list" where
  "spec_round_trips h =
     concat (map (\<lambda>s. spec_walk (filter (\<lambda>t. tr_symbol t = s \<and> is_buy t) h)
                                 (filter (\<lambda>t. tr_symbol t = s \<and> is_sell t) h))
               (spec_symbols h))"


section \<open>Sample states\<close>

text \<open>An account holding 100 shares of \<open>X\<close> under the default cost model.\<close>

definition held_100 :: TradeManager where
  "held_100 =
     \<lparr>initial_cash = 2000, cash = 1000, trade_cost = TradeCost_default exact,
      positions = [(''X'', \<lparr>pos_symbol = ''X'', pos_shares = 100, pos_avg_price = 10,
                            pos_cost_basis = 1000\<rparr>)],
      trade_history = [], daily_portfolio_value = []\<rparr>"

text \<open>A cost model with both rates zero and the default minimum commission.\<close>

definition zero_rate_cost :: TradeCost where
  "zero_rate_cost = \<lparr>commission_rate = 0, min_commission = 5, slippage_rate = 0\<rparr>"

text \<open>A cost model that charges nothing.\<close>

definition free_cost :: TradeCost where
  "free_cost = \<lparr>commission_rate = 0, min_commission = 0, slippage_rate = 0\<rparr>"

text \<open>Three bars: two entry signals at close 10, one exit signal at close 12.\<close>

definition bar1 :: Bar where
  "bar1 = \<lparr>bar_date = 1, bar_close = 10, bar_signal = 1\<rparr>"

definition bar2 :: Bar where
  "bar2 = \<lparr>bar_date = 2, bar_close = 10, bar_signal = 1\<rparr>"

definition bar3 :: Bar where
  "bar3 = \<lparr>bar_date = 3, bar_close = 12, bar_signal = - 1\<rparr>"

text \<open>
  A rounding that is not exact: round to the nearest multiple of \<open>1/1024\<close>. It is used to
  instantiate the theorems that hold under every rounding.
\<close>

definition fixed_rounding :: rounding where
  "fixed_rounding x = of_int \<lfloor>x * 1024 + 1 / 2\<rfloor> / 1024"

section \<open>Properties\<close>

lemmas exec_defs = buy_def buy_fill_def buy_commit_def sell_def sell_commit_def sell_shares_def
  calculate_def total_spend_def amount_shares_def py_int_def TradeManager_init_def
  TradeCost_default_def Position_init_def Position_add_def Position_remove_def Let_def
  reset_def init_record_def exact_def

lemmas loop_defs = run_def run_bar_def bar_call_def do_call_def call_label_def get_position_def
  update_portfolio_value_def value_step_def market_value_def

lemma py_int_nonneg: "0 \<le> x \<Longrightarrow> py_int x = \<lfloor>x\<rfloor>"
  by (simp add: py_int_def)

lemma update_same: "map_of al k = Some v \<Longrightarrow> AList.update k v al = al"
  by (induction al) (auto split: if_splits)

lemma monotone_rounding_exact: "monotone_rounding exact"
  by (simp add: monotone_rounding_def exact_def)

lemma rounding_error_exact: "rounding_error 0 0 exact"
  by (simp add: rounding_error_def exact_def)

lemma monotone_rounding_nonneg: "monotone_rounding rnd \<Longrightarrow> 0 \<le> x \<Longrightarrow> 0 \<le> rnd x"
  unfolding monotone_rounding_def by metis

lemma monotone_rounding_fixed: "monotone_rounding fixed_rounding"
proof -
  have "fixed_rounding 0 = 0" by (simp add: fixed_rounding_def)
  moreover have "fixed_rounding x \<le> fixed_rounding y" if "x \<le> y" for x y
  proof -
    from that have "\<lfloor>x * 1024 + 1 / 2\<rfloor> \<le> \<lfloor>y * 1024 + 1 / 2\<rfloor>" by (intro floor_mono) simp
    then show ?thesis by (simp add: fixed_rounding_def divide_right_mono)
  qed
  moreover have "fixed_rounding (fixed_rounding x) = fixed_rounding x" for x
  proof -
    have "\<lfloor>of_int \<lfloor>x * 1024 + 1 / 2\<rfloor> + (1 / 2 :: real)\<rfloor> = \<lfloor>x * 1024 + 1 / 2\<rfloor>"
      by linarith
    then show ?thesis by (simp add: fixed_rounding_def)
  qed
  ultimately show ?thesis unfolding monotone_rounding_def by blast
qed

lemma rounding_error_fixed: "rounding_error 0 (1 / 2048) fixed_rounding"
proof -
  have "\<bar>fixed_rounding x - x\<bar> \<le> 1 / 2048" for x
  proof -
    let ?k = "\<lfloor>x * 1024 + 1 / 2\<rfloor>"
    have "- (1 / 2) \<le> of_int ?k - x * 1024" and "of_int ?k - x * 1024 \<le> 1 / 2"
      by linarith+
    then have "- (1 / 2048) \<le> of_int ?k / 1024 - x" and "of_int ?k / 1024 - x \<le> 1 / 2048"
      by linarith+
    then show ?thesis unfolding fixed_rounding_def by linarith
  qed
  then show ?thesis by (simp add: rounding_error_def)
qed

subsection \<open>Cost model\<close>

text \<open>
  C2 (as stated, refuted): with \<open>shares = 0\<close> the default cost model at price 10 charges
  the minimum commission 5, so the costs are not all zero.
\<close>

theorem calculate_zero_shares_counterexample:
  "commission_rate (TradeCost_default exact) \<ge> 0 \<and> min_commission (TradeCost_default exact) \<ge> 0
   \<and> slippage_rate (TradeCost_default exact) \<ge> 0 \<and> (10::real) > 0
   \<and> calculate exact (TradeCost_default exact) 10 0 = (5, 0, 5)
   \<and> calculate exact (TradeCost_default exact) 10 0 \<noteq> (0, 0, 0)"
  by (simp add: calculate_def TradeCost_default_def Let_def exact_def)

text \<open>
  C2 (amended): for every cost model with \<open>min_commission \<ge> 0\<close> and every price, the cost
  of zero shares is commission \<open>= min_commission\<close>, slippage \<open>= 0\<close> and
  total cost \<open>= min_commission\<close>.
\<close>

theorem calculate_zero_shares:
  "min_commission tc \<ge> 0 \<Longrightarrow>
     calculate exact tc price 0 = (min_commission tc, 0, min_commission tc)"
  by (simp add: calculate_def Let_def exact_def)

theorem calculate_zero_shares_witness:
  "min_commission (TradeCost_default exact) \<ge> 0
   \<and> calculate exact (TradeCost_default exact) 25 0 = (5, 0, 5)"
  using calculate_zero_shares [of "TradeCost_default exact" 25]
  by (simp add: TradeCost_default_def)

text \<open>
  The same holds under every rounding that keeps zero and the minimum commission, as
  float arithmetic does.
\<close>

lemma calculate_zero_shares_rounded:
  "rnd 0 = 0 \<Longrightarrow> rnd (min_commission tc) = min_commission tc \<Longrightarrow> min_commission tc \<ge> 0 \<Longrightarrow>
     calculate rnd tc price 0 = (min_commission tc, 0, min_commission tc)"
  by (simp add: calculate_def Let_def)

subsection \<open>Fresh ledger and reset\<close>

text \<open>
  C3: the constructor leaves the trade history empty, so a freshly constructed
  trade manager has no INIT record as its first entry; only \<open>reset\<close> appends one.
\<close>

theorem TradeManager_init_no_INIT:
  "trade_history (TradeManager_init rnd c tc) = []
   \<and> trade_history (reset now (TradeManager_init rnd c tc)) = [init_record now c]
   \<and> tr_trade_type (init_record now c) = INIT
   \<and> tr_cash_change (init_record now c) = c"
  by (simp add: TradeManager_init_def reset_def init_record_def)

text \<open>
  C6: resetting twice gives the state of a single reset: cash is the initial cash, there are
  no positions, and the history is exactly one INIT record. The record's date is the clock
  reading of the last reset.
\<close>

theorem reset_idempotent:
  "reset n2 (reset n1 tm) = reset n2 tm
   \<and> reset n (reset n tm) = reset n tm
   \<and> cash (reset n2 (reset n1 tm)) = initial_cash tm
   \<and> positions (reset n2 (reset n1 tm)) = []
   \<and> trade_history (reset n2 (reset n1 tm)) = [init_record n2 (initial_cash tm)]
   \<and> tr_trade_type (init_record n2 (initial_cash tm)) = INIT"
  by (simp add: reset_def init_record_def)

subsection \<open>Selling zero shares\<close>

text \<open>
  C10: when a positive number of shares is held, the price is positive and the minimum
  commission is positive, \<open>sell\<close> with the explicit share count 0 commits a SELL record of
  0 shares whose cash change is minus the minimum commission; cash drops by that amount
  and the positions are unchanged.
\<close>

theorem sell_zero_shares_not_noop:
  assumes "map_of (positions tm) symbol = Some p" and "pos_shares p > 0"
    and "price > 0" and "min_commission (trade_cost tm) > 0"
  shows "\<exists>r. sell exact tm date symbol price (Some 0) amount percent =
           Inr (Some r, tm\<lparr>cash := cash tm - min_commission (trade_cost tm),
                            trade_history := trade_history tm @ [r]\<rparr>)
         \<and> tr_trade_type r = SELL \<and> tr_shares r = 0
         \<and> tr_cash_change r = - min_commission (trade_cost tm)"
  using assms
  by (simp add: sell_def sell_shares_def sell_commit_def calculate_def Position_remove_def
      update_same min_def max_def Let_def exact_def)

theorem sell_zero_shares_not_noop_witness:
  "\<exists>r. sell exact held_100 7 ''X'' 10 (Some 0) None None =
         Inr (Some r, held_100\<lparr>cash := 995, trade_history := [r]\<rparr>)
       \<and> tr_trade_type r = SELL \<and> tr_shares r = 0 \<and> tr_cash_change r = - 5"
  using sell_zero_shares_not_noop [of held_100 "''X''"
      "\<lparr>pos_symbol = ''X'', pos_shares = 100, pos_avg_price = 10, pos_cost_basis = 1000\<rparr>"
      10 7 None None]
  by (simp add: held_100_def TradeCost_default_def)

subsection \<open>Cash after a committed call\<close>

text \<open>A buy that is filled at the requested size leaves cash non-negative.\<close>

lemma buy_full_fill_cash:
  assumes "monotone_rounding rnd"
    and "total_spend rnd (trade_cost tm) price n \<le> cash tm"
    and "buy_fill rnd tm date symbol price n allow_partial = Inr (r, tm')"
  shows "cash tm' = rnd (cash tm - total_spend rnd (trade_cost tm) price n) \<and> 0 \<le> cash tm'"
  using assms monotone_rounding_nonneg [of rnd "cash tm - total_spend rnd (trade_cost tm) price n"]
  by (auto simp: buy_fill_def buy_commit_def total_spend_def calculate_def Let_def)

text \<open>
  C1: the reduced fill of \<open>buy\<close> sizes the lot from the two rates only and leaves the
  minimum commission out. With the default cost model and cash 1001, a request for
  100 shares at price 10 costs 1005.1, the reduced lot is again 100 shares, and the
  committed buy leaves cash at \<open>-4.1\<close>.
\<close>

theorem buy_reduced_fill_negative_cash:
  "cash (TradeManager_init exact 1001 None) \<ge> 0
   \<and> (case buy exact (TradeManager_init exact 1001 None) 1 ''X'' 10 (Some 100) None True of
        Inr (Some r, tm') \<Rightarrow>
          tr_shares r = 100 \<and> tr_total_cost r = 51 / 10 \<and> cash tm' = - 41 / 10 \<and> cash tm' < 0
      | _ \<Rightarrow> False)"
  by (simp add: exec_defs)

text \<open>
  \<open>sell\<close> has no cash check at all: when the cost exceeds the proceeds, cash falls, here
  from 1 to \<open>-3.0001\<close>.
\<close>

lemma sell_below_commission_negative_cash:
  "(case sell exact (held_100\<lparr>cash := 1\<rparr>) 1 ''X'' (1 / 100) None None None of
        Inr (Some r, tm') \<Rightarrow> tr_shares r = 100 \<and> cash tm' = - 30001 / 10000
      | _ \<Rightarrow> False)"
  by (simp add: exec_defs held_100_def)

subsection \<open>Rejected buy\<close>

text \<open>
  Under every rounding: when the total spend exceeds cash and the recomputed lot is
  defined and 0, \<open>buy\<close> returns no trade and the trade manager is unchanged.
\<close>

lemma buy_rejected_atomic_rounded:
  assumes "price > 0"
    and "shares = Some n
         \<or> (shares = None \<and> amount = Some a \<and> n = amount_shares rnd price a allow_partial)"
    and "total_spend rnd (trade_cost tm) price n > cash tm"
    and "rnd (price * rnd (rnd (1 + commission_rate (trade_cost tm))
                + slippage_rate (trade_cost tm))) \<noteq> 0"
    and "of_int \<lfloor>rnd (rnd (cash tm / rnd (price * rnd (rnd (1 + commission_rate (trade_cost tm))
                + slippage_rate (trade_cost tm)))) / 100)\<rfloor> * 100 = (0::real)"
  shows "buy rnd tm date symbol price shares amount allow_partial = Inr (None, tm)"
proof -
  let ?q = "rnd (rnd (cash tm / rnd (price * rnd (rnd (1 + commission_rate (trade_cost tm))
                + slippage_rate (trade_cost tm)))) / 100)"
  from assms(5) have fl: "\<lfloor>?q\<rfloor> = 0" by simp
  then have "0 \<le> ?q" by linarith
  then have "py_int ?q = 0" using fl by (simp add: py_int_nonneg)
  then have "buy_fill rnd tm date symbol price n allow_partial = Inr (None, tm)"
    using assms(3,4) by (simp add: buy_fill_def Let_def)
  with assms(1,2) show ?thesis by (auto simp: buy_def)
qed

text \<open>
  C5: for a buy with \<open>price > 0\<close> and a sizing directive whose total spend exceeds cash,
  when the recomputed lot \<open>floor(cash / (price*(1+commission_rate+slippage_rate)) / 100)*100\<close>
  is defined (no division by zero) and equal to 0, \<open>buy\<close> returns no trade and the whole
  trade manager, with cash, positions and trade history, is unchanged.
\<close>

theorem buy_rejected_atomic:
  assumes "price > 0"
    and "shares = Some n
         \<or> (shares = None \<and> amount = Some a \<and> n = amount_shares exact price a allow_partial)"
    and "total_spend exact (trade_cost tm) price n > cash tm"
    and "1 + commission_rate (trade_cost tm) + slippage_rate (trade_cost tm) \<noteq> 0"
    and "of_int \<lfloor>cash tm / (price * (1 + commission_rate (trade_cost tm)
                 + slippage_rate (trade_cost tm))) / 100\<rfloor> * 100 = (0::real)"
  shows "buy exact tm date symbol price shares amount allow_partial = Inr (None, tm)"
proof -
  let ?q = "cash tm / (price * (1 + commission_rate (trade_cost tm)
              + slippage_rate (trade_cost tm))) / 100"
  from assms(5) have fl: "\<lfloor>?q\<rfloor> = 0" by simp
  then have "0 \<le> ?q" by linarith
  then have "py_int ?q = 0" using fl by (simp add: py_int_nonneg)
  then have "buy_fill exact tm date symbol price n allow_partial = Inr (None, tm)"
    using assms(1,3,4) by (simp add: buy_fill_def Let_def exact_def)
  with assms(1,2) show ?thesis by (auto simp: buy_def)
qed

theorem buy_rejected_atomic_witness:
  "buy exact (TradeManager_init exact 500 None) 1 ''X'' 10 (Some 100) None True
     = Inr (None, TradeManager_init exact 500 None)"
  using buy_rejected_atomic
    [of 10 "Some 100" 100 None 0 True "TradeManager_init exact 500 None" 1 "''X''"]
  by (simp add: TradeManager_init_def TradeCost_default_def total_spend_def calculate_def
      Let_def exact_def)

subsection \<open>Sizing a buy from an amount\<close>

lemma buy_fill_enough_cash:
  "total_spend rnd (trade_cost tm) price n \<le> cash tm \<Longrightarrow>
     buy_fill rnd tm date symbol price n allow_partial
       = Inr (buy_commit rnd tm date symbol price n)"
  by (simp add: buy_fill_def)

lemma buy_commit_record:
  "\<exists>r tm'. buy_commit rnd tm date symbol price n = (Some r, tm') \<and> tr_shares r = n
     \<and> cash tm' = rnd (cash tm - total_spend rnd (trade_cost tm) price n)"
  by (simp add: buy_commit_def total_spend_def calculate_def Let_def)

text \<open>
  C4 (as stated, refuted): with \<open>allow_partial = False\<close>, amount 50 and price 1 the floor
  is 0 and \<open>amount / price = 50 \<ge> 1\<close>, yet the share count used is 0, not 100: the buy
  commits a record of 0 shares.
\<close>

theorem buy_amount_sizing_counterexample:
  "(1::real) > 0 \<and> \<lfloor>(50::real) / 1 / 100\<rfloor> = 0 \<and> (50::real) / 1 \<ge> 1
   \<and> amount_shares exact 1 50 False = 0
   \<and> (case buy exact (TradeManager_init exact 1000 None) 1 ''X'' 1 None (Some 50) False of
        Inr (Some r, tm') \<Rightarrow> tr_shares r = 0 \<and> cash tm' = 995
      | _ \<Rightarrow> False)"
  by (simp add: exec_defs)

text \<open>
  \<open>int()\<close> truncates toward zero, so a negative amount is not sized by the floor either.
\<close>

lemma amount_shares_negative_amount:
  "amount_shares exact 1 (- 50) True = 0
   \<and> of_int \<lfloor>(- 50::real) / 1 / 100\<rfloor> * (100::real) = - 100"
  by (simp add: exec_defs ceiling_def)

text \<open>
  The count follows the float quotient, not the real one. For amount 220 at the price
  written \<open>1.1\<close>, the float value of \<open>220 / 1.1 / 100\<close> is below 2 in binary64, and one
  lot is sized; the binary64 value of \<open>1.1\<close> makes the quotient fall below 200 already
  in exact arithmetic.
\<close>

lemma amount_shares_follows_float_quotient:
  assumes "1 \<le> rnd (rnd (220 / rnd (11 / 10)) / 100)"
    and "rnd (rnd (220 / rnd (11 / 10)) / 100) < 2"
  shows "amount_shares rnd (rnd (11 / 10)) 220 allow_partial = 100"
proof -
  let ?q = "rnd (rnd (220 / rnd (11 / 10)) / 100)"
  from assms have "\<lfloor>?q\<rfloor> = 1" by linarith
  with assms have "py_int ?q = 1" by (simp add: py_int_def)
  then show ?thesis by (simp add: amount_shares_def Let_def)
qed

lemma amount_shares_at_binary_price:
  "amount_shares exact (2476979795053773 / 2251799813685248) 220 True = 100"
  by (simp add: amount_shares_def py_int_def Let_def exact_def)

text \<open>
  C4 (amended): for every buy with \<open>price > 0\<close> and an amount directive \<open>amount \<ge> 0\<close>, with
  \<open>q\<close> the float value of \<open>amount / price / 100\<close> as the code computes it (each division
  rounded), the share count used is \<open>floor(q) * 100\<close>, except that it is 100 when that floor
  is 0, \<open>allow_partial\<close> is set and the float value of \<open>amount / price\<close> is at least 1; when
  cash covers the total spend of that count, the committed BUY record carries exactly that
  count. This holds under every monotone rounding.
\<close>

theorem buy_amount_sizing:
  assumes "price > 0" and "amount \<ge> 0" and "monotone_rounding rnd"
  shows "amount_shares rnd price amount allow_partial =
           (if \<lfloor>rnd (rnd (amount / price) / 100)\<rfloor> = 0 \<and> allow_partial
                \<and> rnd (amount / price) \<ge> 1
            then 100
            else of_int \<lfloor>rnd (rnd (amount / price) / 100)\<rfloor> * 100)
         \<and> (total_spend rnd (trade_cost tm) price (amount_shares rnd price amount allow_partial)
              \<le> cash tm
            \<longrightarrow> (\<exists>r tm'. buy rnd tm date symbol price None (Some amount) allow_partial
                            = Inr (Some r, tm')
                  \<and> tr_shares r = amount_shares rnd price amount allow_partial))"
proof -
  from assms(1,2) have "0 \<le> amount / price" by simp
  then have "0 \<le> rnd (amount / price)"
    using assms(3) by (rule monotone_rounding_nonneg [rotated])
  then have "0 \<le> rnd (amount / price) / 100" by simp
  then have "0 \<le> rnd (rnd (amount / price) / 100)"
    using assms(3) by (rule monotone_rounding_nonneg [rotated])
  then have "py_int (rnd (rnd (amount / price) / 100)) = \<lfloor>rnd (rnd (amount / price) / 100)\<rfloor>"
    by (rule py_int_nonneg)
  then have first: "amount_shares rnd price amount allow_partial =
           (if \<lfloor>rnd (rnd (amount / price) / 100)\<rfloor> = 0 \<and> allow_partial
                \<and> rnd (amount / price) \<ge> 1
            then 100
            else of_int \<lfloor>rnd (rnd (amount / price) / 100)\<rfloor> * 100)"
    by (simp add: amount_shares_def Let_def)
  have second: "\<exists>r tm'. buy rnd tm date symbol price None (Some amount) allow_partial
                    = Inr (Some r, tm')
                  \<and> tr_shares r = amount_shares rnd price amount allow_partial"
    if "total_spend rnd (trade_cost tm) price (amount_shares rnd price amount allow_partial)
          \<le> cash tm"
    using that assms(1)
      buy_commit_record [of rnd tm date symbol price "amount_shares rnd price amount allow_partial"]
    by (auto simp: buy_def buy_fill_enough_cash)
  from first second show ?thesis by blast
qed

theorem buy_amount_sizing_witness:
  "amount_shares exact 50 10000 True = 200
   \<and> (\<exists>r tm'. buy exact (TradeManager_init exact 100000 None) 1 ''X'' 50 None (Some 10000) True
                 = Inr (Some r, tm') \<and> tr_shares r = 200)
   \<and> amount_shares fixed_rounding 50 500 True = 100
   \<and> (\<exists>r tm'. buy fixed_rounding (TradeManager_init exact 100000 None) 1 ''X'' 50 None
                   (Some 500) True
                 = Inr (Some r, tm') \<and> tr_shares r = 100)
   \<and> (\<exists>r tm'. buy exact (TradeManager_init exact 100000 None) 1 ''X''
                   (2476979795053773 / 2251799813685248) None (Some 220) True
                 = Inr (Some r, tm') \<and> tr_shares r = 100)"
proof -
  let ?tm = "TradeManager_init exact 100000 None"
  let ?p = "2476979795053773 / 2251799813685248 :: real"
  have a: "amount_shares exact 50 10000 True = 200"
    and b: "amount_shares fixed_rounding 50 500 True = 100"
    by (simp_all add: amount_shares_def py_int_def Let_def exact_def fixed_rounding_def)
  note e = amount_shares_at_binary_price
  have c: "total_spend exact (trade_cost ?tm) 50 200 \<le> cash ?tm"
    and d: "total_spend fixed_rounding (trade_cost ?tm) 50 100 \<le> cash ?tm"
    and f: "total_spend exact (trade_cost ?tm) ?p 100 \<le> cash ?tm"
    by (simp_all add: exec_defs fixed_rounding_def)
  from buy_amount_sizing [OF _ _ monotone_rounding_exact, of 50 10000 True ?tm 1 "''X''"]
    buy_amount_sizing [OF _ _ monotone_rounding_fixed, of 50 500 True ?tm 1 "''X''"]
    buy_amount_sizing [OF _ _ monotone_rounding_exact, of ?p 220 True ?tm 1 "''X''"]
    a b c d e f
  show ?thesis by simp
qed

subsection \<open>Buying and selling back\<close>

text \<open>
  C7 (as stated, refuted): with both rates zero but the minimum commission 5, buying
  100 shares at 10 and selling them at 10 takes cash from 100000 to 99990.
\<close>

theorem round_trip_cash_counterexample:
  "commission_rate zero_rate_cost = 0 \<and> slippage_rate zero_rate_cost = 0
   \<and> (case buy exact (TradeManager_init exact 100000 (Some zero_rate_cost)) 1 ''X'' 10
            (Some 100) None True of
        Inr (Some r1, tm1) \<Rightarrow>
          (case sell exact tm1 1 ''X'' 10 (Some 100) None None of
             Inr (Some r2, tm2) \<Rightarrow>
               tr_shares r1 = 100 \<and> tr_shares r2 = 100 \<and> cash tm2 = 99990
           | _ \<Rightarrow> False)
      | _ \<Rightarrow> False)"
  by (simp add: exec_defs zero_rate_cost_def)

text \<open>
  Subtracting and adding back a spend \<open>p\<close> with two roundings moves cash by at most
  \<open>(2u + u\<^sup>2) * cash + (2 + u) * eta\<close>.
\<close>

lemma round_trip_error:
  assumes "rounding_error u eta rnd" and "0 \<le> p" and "p \<le> c"
  shows "\<bar>rnd (rnd (c - p) + p) - c\<bar> \<le> (2 * u + u\<^sup>2) * c + (2 + u) * eta"
proof -
  from assms(1) have u: "0 \<le> u" and e: "0 \<le> eta"
    and err: "\<And>x. \<bar>rnd x - x\<bar> \<le> u * \<bar>x\<bar> + eta"
    by (simp_all add: rounding_error_def)
  let ?a = "c - p" and ?s = "rnd (c - p) + p"
  have a: "0 \<le> ?a" "?a \<le> c" using assms(2,3) by simp_all
  have c0: "0 \<le> c" using assms(2,3) by simp
  have "\<bar>rnd ?a - ?a\<bar> \<le> u * ?a + eta" using err [of ?a] a by simp
  also have "u * ?a \<le> u * c" using u a by (simp add: mult_left_mono)
  finally have d1: "\<bar>?s - c\<bar> \<le> u * c + eta" by simp
  then have "\<bar>?s\<bar> \<le> c + (u * c + eta)" using c0 by linarith
  then have "u * \<bar>?s\<bar> \<le> u * (c + (u * c + eta))" using u by (simp add: mult_left_mono)
  with err [of ?s] have d2: "\<bar>rnd ?s - ?s\<bar> \<le> u * (c + (u * c + eta)) + eta" by linarith
  have "\<bar>rnd ?s - c\<bar> \<le> \<bar>rnd ?s - ?s\<bar> + \<bar>?s - c\<bar>" by linarith
  with d1 d2 have "\<bar>rnd ?s - c\<bar> \<le> u * (c + (u * c + eta)) + eta + (u * c + eta)" by linarith
  also have "\<dots> = (2 * u + u\<^sup>2) * c + (2 + u) * eta" by (simp add: algebra_simps power2_eq_square)
  finally show ?thesis .
qed

text \<open>
  Under a rounding that is not exact the round trip does change cash, within the bound:
  from 1000.1 to 1000.099609375 when rounding to multiples of \<open>1/1024\<close>.
\<close>

lemma round_trip_not_exact_under_rounding:
  "(case buy fixed_rounding (TradeManager_init fixed_rounding (10001 / 10) (Some free_cost))
           1 ''X'' (41 / 10) (Some 100) None True of
      Inr (Some r1, tm1) \<Rightarrow>
        (case sell fixed_rounding tm1 1 ''X'' (41 / 10) (Some 100) None None of
           Inr (Some r2, tm2) \<Rightarrow> cash tm2 = 512051 / 512 \<and> cash tm2 \<noteq> 10001 / 10
         | _ \<Rightarrow> False)
    | _ \<Rightarrow> False)"
  by (simp add: buy_def buy_fill_def buy_commit_def sell_def sell_commit_def sell_shares_def
      calculate_def total_spend_def TradeManager_init_def Position_init_def Position_add_def
      Position_remove_def Let_def free_cost_def fixed_rounding_def)

text \<open>
  C7 (amended): for every account whose held quantity of the symbol is not negative, every
  \<open>N > 0\<close> that is a float and every \<open>price > 0\<close>: with a cost model whose commission rate,
  slippage rate and minimum commission are all zero, and cash that covers the float value of
  \<open>price * N\<close>, buying \<open>N\<close> shares and then selling \<open>N\<close> shares at the same price fills both
  trades with \<open>N\<close> shares and leaves cash unchanged up to floating rounding:
  \<open>|cash' - cash| \<le> (2u + u\<^sup>2) * cash + (2 + u) * eta\<close> for a monotone rounding with unit
  roundoff \<open>u\<close> and subnormal error \<open>eta\<close>, hence exactly unchanged in exact arithmetic.
\<close>

theorem round_trip_cash:
  assumes "price > 0" and "N > 0" and "rnd N = N"
    and "monotone_rounding rnd" and "rounding_error u eta rnd"
    and "commission_rate (trade_cost tm) = 0" and "slippage_rate (trade_cost tm) = 0"
    and "min_commission (trade_cost tm) = 0"
    and "rnd (price * N) \<le> cash tm"
    and "pos_shares (get_position rnd tm symbol) \<ge> 0"
  shows "\<exists>r1 tm1 r2 tm2.
           buy rnd tm d1 symbol price (Some N) None allow_partial = Inr (Some r1, tm1)
           \<and> tr_shares r1 = N
           \<and> sell rnd tm1 d2 symbol price (Some N) None None = Inr (Some r2, tm2)
           \<and> tr_shares r2 = N
           \<and> \<bar>cash tm2 - cash tm\<bar> \<le> (2 * u + u\<^sup>2) * cash tm + (2 + u) * eta"
proof -
  from assms(4) have r0: "rnd 0 = 0" and mono: "\<And>x y. x \<le> y \<Longrightarrow> rnd x \<le> rnd y"
    and idem: "\<And>x. rnd (rnd x) = rnd x"
    by (simp_all add: monotone_rounding_def)
  let ?p = "rnd (price * N)"
  let ?held = "pos_shares (get_position rnd tm symbol)"
  have p0: "0 \<le> ?p" using assms(1,2) monotone_rounding_nonneg [OF assms(4), of "price * N"] by simp
  have cost: "calculate rnd (trade_cost tm) price N = (0, 0, 0)"
    using assms(6,7,8) r0 by (simp add: calculate_def Let_def)
  have spend: "total_spend rnd (trade_cost tm) price N = ?p"
    by (simp add: total_spend_def cost idem)
  have ge: "N \<le> rnd (?held + N)"
    using mono [of N "?held + N"] assms(3,10) by simp
  let ?pos = "Position_add rnd (get_position rnd tm symbol) N price"
  have shares: "pos_shares ?pos = rnd (?held + N)"
    using assms(2) by (simp add: Position_add_def Let_def)
  let ?r1 = "\<lparr>tr_date = d1, tr_symbol = symbol, tr_trade_type = BUY, tr_price = price,
      tr_shares = N, tr_commission = 0, tr_slippage = 0, tr_total_cost = 0,
      tr_cash_change = - ?p, tr_cash_balance = rnd (cash tm - ?p)\<rparr>"
  let ?tm1 = "tm\<lparr>cash := rnd (cash tm - ?p),
      positions := AList.update symbol ?pos (positions tm),
      trade_history := trade_history tm @ [?r1]\<rparr>"
  have b: "buy rnd tm d1 symbol price (Some N) None allow_partial = Inr (Some ?r1, ?tm1)"
    using assms(1,9)
    by (simp add: buy_def buy_fill_def spend buy_commit_def cost idem get_position_def
        Let_def split: option.splits)
  have look: "map_of (positions ?tm1) symbol = Some ?pos" by (simp add: update_conv')
  have cost2: "calculate rnd (trade_cost ?tm1) price N = (0, 0, 0)" using cost by simp
  have "\<exists>r2 tm2. sell rnd ?tm1 d2 symbol price (Some N) None None = Inr (Some r2, tm2)
          \<and> tr_shares r2 = N \<and> cash tm2 = rnd (rnd (cash tm - ?p) + ?p)"
    using assms(1,2) ge shares look cost2
    by (simp add: sell_def sell_shares_def sell_commit_def idem min_def Let_def)
  moreover have "\<bar>rnd (rnd (cash tm - ?p) + ?p) - cash tm\<bar>
      \<le> (2 * u + u\<^sup>2) * cash tm + (2 + u) * eta"
    by (rule round_trip_error [OF assms(5) p0 assms(9)])
  ultimately show ?thesis using b by auto
qed

theorem round_trip_cash_witness:
  "(\<exists>r1 tm1 r2 tm2.
      buy exact (TradeManager_init exact 100000 (Some free_cost)) 1 ''X'' 10 (Some 100) None True
        = Inr (Some r1, tm1)
      \<and> tr_shares r1 = 100
      \<and> sell exact tm1 1 ''X'' 10 (Some 100) None None = Inr (Some r2, tm2)
      \<and> tr_shares r2 = 100
      \<and> cash tm2 = 100000)
   \<and> (\<exists>r1 tm1 r2 tm2.
      buy fixed_rounding (TradeManager_init exact (10001 / 10) (Some free_cost)) 1 ''X''
          (41 / 10) (Some 100) None True
        = Inr (Some r1, tm1)
      \<and> tr_shares r1 = 100
      \<and> sell fixed_rounding tm1 1 ''X'' (41 / 10) (Some 100) None None = Inr (Some r2, tm2)
      \<and> tr_shares r2 = 100
      \<and> \<bar>cash tm2 - 10001 / 10\<bar> \<le> 1 / 1024)"
proof -
  have fr: "fixed_rounding 100 = 100" "fixed_rounding (41 / 10 * 100) = 410"
    by (simp_all add: fixed_rounding_def)
  from round_trip_cash [OF _ _ _ monotone_rounding_exact rounding_error_exact,
      of 10 100 "TradeManager_init exact 100000 (Some free_cost)" "''X''" 1 True 1]
  have first: "\<exists>r1 tm1 r2 tm2.
      buy exact (TradeManager_init exact 100000 (Some free_cost)) 1 ''X'' 10 (Some 100) None True
        = Inr (Some r1, tm1)
      \<and> tr_shares r1 = 100
      \<and> sell exact tm1 1 ''X'' 10 (Some 100) None None = Inr (Some r2, tm2)
      \<and> tr_shares r2 = 100
      \<and> cash tm2 = 100000"
    by (simp add: TradeManager_init_def free_cost_def get_position_def Position_init_def
        exact_def)
  from round_trip_cash [OF _ _ _ monotone_rounding_fixed rounding_error_fixed,
      of "41 / 10" 100 "TradeManager_init exact (10001 / 10) (Some free_cost)" "''X''" 1 True 1]
    fr
  have second: "\<exists>r1 tm1 r2 tm2.
      buy fixed_rounding (TradeManager_init exact (10001 / 10) (Some free_cost)) 1 ''X''
          (41 / 10) (Some 100) None True
        = Inr (Some r1, tm1)
      \<and> tr_shares r1 = 100
      \<and> sell fixed_rounding tm1 1 ''X'' (41 / 10) (Some 100) None None = Inr (Some r2, tm2)
      \<and> tr_shares r2 = 100
      \<and> \<bar>cash tm2 - 10001 / 10\<bar> \<le> 1 / 1024"
    by (simp add: TradeManager_init_def free_cost_def get_position_def Position_init_def)
  from first second show ?thesis by (rule conjI)
qed

subsection \<open>The bar loop\<close>








subsection \<open>Round-trip reconstruction\<close>

lemma pair_loop_walk:
  "pair_loop bs ss i j acc = acc @ spec_walk (drop i bs) (drop j ss)"
proof (induction bs ss i j acc rule: pair_loop.induct)
  case (1 bs ss i j acc)
  show ?case
  proof (cases "i < length bs \<and> j < length ss")
    case False
    then have "drop i bs = [] \<or> drop j ss = []" by auto
    then have "spec_walk (drop i bs) (drop j ss) = []"
      by (cases "drop i bs") auto
    with False show ?thesis by (subst pair_loop.simps) auto
  next
    case True
    then have db: "drop i bs = bs ! i # drop (Suc i) bs"
      and ds: "drop j ss = ss ! j # drop (Suc j) ss"
      by (simp_all add: Cons_nth_drop_Suc)
    show ?thesis
    proof (cases "tr_date (bs ! i) < tr_date (ss ! j)")
      case lt: True
      from "1.IH"(1) [OF True refl refl lt]
      show ?thesis using True lt db ds by (subst pair_loop.simps) simp
    next
      case ge: False
      from "1.IH"(2) [OF True refl refl ge]
      show ?thesis using True ge db ds by (subst pair_loop.simps) simp
    qed
  qed
qed

lemma update_map_present:
  "k \<in> set ks \<Longrightarrow> distinct ks \<Longrightarrow>
     AList.update k v (map (\<lambda>s. (s, g s)) ks) = map (\<lambda>s. (s, if s = k then v else g s)) ks"
  by (induction ks) auto

lemma update_map_absent:
  "k \<notin> set ks \<Longrightarrow>
     AList.update k v (map (\<lambda>s. (s, g s)) ks) = map (\<lambda>s. (s, g s)) ks @ [(k, v)]"
  by (induction ks) auto

lemma map_of_map_key:
  "map_of (map (\<lambda>s. (s, g s)) ks) k = (if k \<in> set ks then Some (g k) else None)"
  by (induction ks) auto

lemma spec_symbols_snoc:
  "spec_symbols (h @ [t]) =
     (if tr_symbol t = [] \<or> tr_symbol t \<in> set (spec_symbols h) then spec_symbols h
      else spec_symbols h @ [tr_symbol t])"
  by (auto simp: spec_symbols_def)

lemma spec_symbols_nonempty: "s \<in> set (spec_symbols h) \<Longrightarrow> s \<noteq> []"
  by (auto simp: spec_symbols_def)

lemma spec_symbols_distinct: "distinct (spec_symbols h)"
  by (simp add: spec_symbols_def)

lemma absent_symbol_filter:
  "s \<noteq> [] \<Longrightarrow> s \<notin> set (spec_symbols h) \<Longrightarrow> filter (\<lambda>t. tr_symbol t = s) h = []"
  by (auto simp: spec_symbols_def filter_empty_conv)

text \<open>The grouping dictionary holds, per symbol in order of first appearance, its trades.\<close>

lemma trades_by_symbol_eq:
  "trades_by_symbol h = map (\<lambda>s. (s, filter (\<lambda>t. tr_symbol t = s) h)) (spec_symbols h)"
proof (induction h rule: rev_induct)
  case Nil
  show ?case by (simp add: trades_by_symbol_def spec_symbols_def)
next
  case (snoc t h)
  have step: "trades_by_symbol (h @ [t]) = group_step t (trades_by_symbol h)"
    by (simp add: trades_by_symbol_def)
  show ?case
  proof (cases "tr_symbol t = []")
    case True
    then show ?thesis
      using snoc spec_symbols_nonempty [of _ h]
      by (auto simp: step group_step_def spec_symbols_snoc)
  next
    case ne: False
    show ?thesis
    proof (cases "tr_symbol t \<in> set (spec_symbols h)")
      case True
      then show ?thesis
        using ne snoc
        by (auto simp: step group_step_def spec_symbols_snoc map_of_map_key
            update_map_present spec_symbols_distinct)
    next
      case False
      then show ?thesis
        using ne snoc absent_symbol_filter [OF ne False]
        by (auto simp: step group_step_def spec_symbols_snoc map_of_map_key
            update_map_absent)
    qed
  qed
qed

lemma fold_pair_symbol:
  "fold pair_symbol xs acc =
     acc @ concat (map (\<lambda>st. spec_walk (filter is_buy (snd st)) (filter is_sell (snd st))) xs)"
  by (induction xs arbitrary: acc) (simp_all add: pair_symbol_def pair_loop_walk)

lemma filter_conj_swap:
  "filter is_buy (filter (\<lambda>t. tr_symbol t = s) h)
     = filter (\<lambda>t. tr_symbol t = s \<and> is_buy t) h"
  "filter is_sell (filter (\<lambda>t. tr_symbol t = s) h)
     = filter (\<lambda>t. tr_symbol t = s \<and> is_sell t) h"
  by (simp_all add: conj_commute)

text \<open>
  C8 (as stated, refuted): \<open>calculate\<close> does not partition by symbol. Two runs on one trade
  manager, the first buying A, the second buying and selling B, leave the history
  BUY A, BUY B, SELL B; \<open>calculate\<close> pairs the BUY of A with the SELL of B, where the
  per-symbol walk pairs the BUY of B with that SELL.
\<close>

theorem calculate_pairs_across_symbols:
  "(case run exact 0 ''A'' (TradeManager_init exact 100000 None) [bar1] None (Some 100) None of
      Inr (rowsA, callsA, tm1) \<Rightarrow>
        (case run exact 0 ''B'' tm1 [bar2, bar3] None (Some 100) None of
           Inr (rowsB, callsB, tm2) \<Rightarrow>
             map tr_symbol (trade_history tm2) = [''A'', ''B'', ''B'']
             \<and> map tr_trade_type (trade_history tm2) = [BUY, BUY, SELL]
             \<and> calculate_paired_trades tm2 rowsB
                 = Inr (Some [(trade_history tm2 ! 0, trade_history tm2 ! 2)])
             \<and> spec_round_trips (trade_history tm2)
                 = [(trade_history tm2 ! 1, trade_history tm2 ! 2)]
         | Inl e \<Rightarrow> False)
    | Inl e \<Rightarrow> False)"
  by (simp add: exec_defs loop_defs bar1_def bar2_def bar3_def calculate_paired_trades_def
      is_buy_def is_sell_def pair_loop.simps spec_round_trips_def spec_symbols_def)

text \<open>
  C8 (amended): \<open>calculate_portfolio\<close>, when there is a valuation snapshot, partitions the
  trades of each non-empty symbol into its BUY and its SELL subsequence in history order and
  walks them with two cursors: the current BUY is paired with the current SELL exactly when
  the SELL's date is strictly after the BUY's date, and both cursors advance; otherwise only
  the SELL cursor advances. \<open>calculate\<close>, when the history has more than one record and the
  result frame has a row, makes the same walk over the BUY and the SELL subsequence of the
  whole history, without partitioning by symbol.
\<close>

theorem round_trip_pairing:
  "calculate_portfolio_paired_trades tm =
     (if daily_portfolio_value tm = [] then None
      else Some (spec_round_trips (trade_history tm)))
   \<and> calculate_paired_trades tm result_df =
     (if length (trade_history tm) \<le> 1 then Inr None
      else if result_df = [] then Inl IndexError
      else Inr (Some (spec_walk (filter is_buy (trade_history tm))
                        (filter is_sell (trade_history tm)))))"
  by (simp add: calculate_portfolio_paired_trades_def calculate_paired_trades_def
      fold_pair_symbol trades_by_symbol_eq spec_round_trips_def pair_loop_walk
      filter_conj_swap comp_def)

text \<open>
  The two reconstructions agree on a history whose BUY and SELL records all carry one
  non-empty symbol.
\<close>

lemma concat_map_single:
  "distinct xs \<Longrightarrow> \<forall>x \<in> set xs. x \<noteq> s \<longrightarrow> f x = [] \<Longrightarrow>
     concat (map f xs) = (if s \<in> set xs then f s else [])"
  by (induction xs) auto

lemma single_symbol_round_trips:
  assumes "s \<noteq> []" and "\<forall>t \<in> set h. is_buy t \<or> is_sell t \<longrightarrow> tr_symbol t = s"
  shows "spec_round_trips h = spec_walk (filter is_buy h) (filter is_sell h)"
proof -
  let ?f = "\<lambda>s'. spec_walk (filter (\<lambda>t. tr_symbol t = s' \<and> is_buy t) h)
                              (filter (\<lambda>t. tr_symbol t = s' \<and> is_sell t) h)"
  have other: "?f x = []" if "x \<noteq> s" for x
  proof -
    have "filter (\<lambda>t. tr_symbol t = x \<and> is_buy t) h = []"
      using assms(2) that by (auto simp: filter_empty_conv)
    then show ?thesis by simp
  qed
  have b: "filter (\<lambda>t. tr_symbol t = s \<and> is_buy t) h = filter is_buy h"
    using assms(2) by (intro filter_cong) auto
  have e: "filter (\<lambda>t. tr_symbol t = s \<and> is_sell t) h = filter is_sell h"
    using assms(2) by (intro filter_cong) auto
  have same: "?f s = spec_walk (filter is_buy h) (filter is_sell h)"
    by (simp only: b e)
  have "spec_round_trips h = (if s \<in> set (spec_symbols h) then ?f s else [])"
    unfolding spec_round_trips_def
    by (rule concat_map_single) (auto simp: spec_symbols_def other)
  moreover have "spec_walk (filter is_buy h) (filter is_sell h) = []"
    if "s \<notin> set (spec_symbols h)"
  proof -
    from absent_symbol_filter [OF assms(1) that] have "\<forall>t \<in> set h. tr_symbol t \<noteq> s"
      by (simp add: filter_empty_conv)
    with assms(2) have "filter is_buy h = []" by (auto simp: filter_empty_conv)
    then show ?thesis by simp
  qed
  ultimately show ?thesis using same by auto
qed

end
